theory Spec2Isabelle
  imports Main
begin

section \<open>The native payment flow (src/payment-flows/native/native.js)\<close>

text \<open>
  The flow runs on a single-threaded event loop. A callback runs to completion before the
  next one starts, and ZalgoPromise runs the continuation of an already settled future at
  the point where it is attached. The model therefore executes one callback at a time on
  an explicit state, settles every future of a collaborator at the point where the
  collaborator is called, and keeps as pending only the two futures the source itself
  leaves open: the one created by \<open>initPopupAppSwitch\<close> and the 1000ms delay of
  \<open>onCloseCallback\<close>. Debug logging through \<open>briceLog\<close> carries no state and is
  left out.
\<close>

subsection \<open>Errors and futures\<close>

datatype err = Error string | TypeError string

text \<open>The settled state of a ZalgoPromise.\<close>

datatype 'a promise = Resolved 'a | Rejected err

text \<open>\<open>ZalgoPromise.all\<close>: resolved when every member is; otherwise rejected with the
  reason of the first rejected member.\<close>

fun promise_all :: "unit promise list \<Rightarrow> unit promise" where
  "promise_all [] = Resolved ()"
| "promise_all (Resolved _ # ps) = promise_all ps"
| "promise_all (Rejected e # ps) = Rejected e"

text \<open>\<open>p.then(() => v)\<close> on a settled future.\<close>

fun then_return :: "unit promise \<Rightarrow> 'a \<Rightarrow> 'a promise" where
  "then_return (Resolved _) v = Resolved v"
| "then_return (Rejected e) v = Rejected e"

text \<open>
  What an identifier denotes where the source calls \<open>.then\<close> on it. An arrow function
  has no \<open>then\<close> property, so calling it throws a TypeError.
\<close>

datatype jsvalue = ArrowFunction | PromiseValue

fun call_then :: "jsvalue \<Rightarrow> err + jsvalue" where
  "call_then PromiseValue = Inr PromiseValue"
| "call_then ArrowFunction = Inl (TypeError ''then is not a function'')"

text \<open>The entries of an object literal are evaluated in order; the first throw ends it.\<close>

fun then_each :: "jsvalue list \<Rightarrow> err + unit" where
  "then_each [] = Inr ()"
| "then_each (v # vs) = (case call_then v of Inl e \<Rightarrow> Inl e | Inr _ \<Rightarrow> then_each vs)"

subsection \<open>Data\<close>

text \<open>Teardown actions, by the handle of the object they release.\<close>

datatype action = PopupCancel nat | ConnectionCancel nat | CheckoutClose nat

fun handle_of :: "action \<Rightarrow> nat" where
  "handle_of (PopupCancel h) = h"
| "handle_of (ConnectionCancel h) = h"
| "handle_of (CheckoutClose h) = h"

text \<open>The fields of \<open>payment\<close> that the flow reads or overrides; \<open>win\<close> is a window handle.\<close>

record payment =
  fundingSource :: string
  win :: "nat option"
  isClick :: bool
  isNativeFallback :: bool

record approve_data =
  payerID :: string
  paymentID :: "string option"
  billingToken :: "string option"

datatype shipping_action = ActResolve | ActReject

text \<open>
  Everything the flow does to its collaborators, in the order it does it. \<open>UserApprove\<close>
  carries the data handed to the user's \<open>onApprove\<close> and its \<open>forceRestAPI\<close> flag.
\<close>

datatype effect =
    Telemetry string
  | Ran action
  | UserApprove approve_data bool
  | UserCancel
  | UserError err
  | UserShippingChange
  | PopupOpened nat
  | ConnectionOpened nat
  | SetProps nat
  | CheckoutInit nat payment
  | CheckoutStart nat
  | QRRendered

text \<open>
  Module-level state and the page around it. \<open>clean\<close> is the module's \<open>let clean\<close>,
  held as the list of tasks still registered: the handle is undefined only before the
  first \<open>initNative\<close>, where \<open>if (clean) clean.all()\<close> does nothing, as \<open>all()\<close>
  does on a registry with no task.
\<close>

record world =
  clean :: "action list"
  lastAppSwitchTime :: "nat option"
  lastWebSwitchTime :: "nat option"
  now :: nat
  next_handle :: nat
  trace :: "effect list"

text \<open>
  The variables one call of \<open>initNative\<close> closes over. \<open>destroy_memo\<close> is the cache of
  \<open>memoize\<close>; \<open>click_pending\<close> lists the popups whose \<open>initPopupAppSwitch\<close> future
  is still open, \<open>click_settled\<close> the outcome of each \<open>click()\<close> future that has
  settled, and \<open>close_timers\<close> the due times of the delays started by
  \<open>onCloseCallback\<close>.
\<close>

record session =
  approved :: bool
  cancelled :: bool
  didFallback :: bool
  destroy_memo :: "unit promise option"
  click_pending :: "nat list"
  click_settled :: "(nat \<times> unit promise) list"
  close_timers :: "nat list"

text \<open>
  The arguments of \<open>initNative\<close> and the behaviour of the collaborators it imports.
  A user handler is given by the future it returns; \<open>onApprove\<close> also says whether the
  handler calls \<open>actions.restart()\<close> while it runs, and \<open>onShippingChange\<close> lists the
  actions the handler invokes before its future settles. \<open>openNativePopup\<close> and
  \<open>connectNative\<close> hold the error the factory throws, if it throws.
\<close>

record env =
  buttonSessionID :: string
  firebase :: "string option"
  payment :: payment
  canUseVenmoDesktopPay :: "string \<Rightarrow> bool"
  onApprove :: "approve_data \<Rightarrow> bool \<times> unit promise"
  onCancel :: "unit promise"
  onError :: "err \<Rightarrow> unit promise"
  onShippingChange :: "(shipping_action list \<times> unit promise) option"
  isAndroidChrome :: bool
  teardown :: "action \<Rightarrow> unit promise"
  openNativePopup :: "err option"
  connectNative :: "err option"
  setProps :: "unit promise"
  checkout_start :: "unit promise"

definition emit :: "effect \<Rightarrow> world \<Rightarrow> world" where
  "emit e w = w\<lparr>trace := trace w @ [e]\<rparr>"

definition alloc :: "world \<Rightarrow> world" where
  "alloc w = w\<lparr>next_handle := Suc (next_handle w)\<rparr>"

subsection \<open>Cleanup registry and memoized destroy\<close>

text \<open>
  Modelled from the spec: \<open>cleanup()\<close> and \<open>memoize\<close> are imported from belter, which
  is not under src/. The spec gives the registry as an ordered sequence of teardown
  actions, where \<open>register(action)\<close> appends an action and \<open>all()\<close> invokes every
  registered action, runs none of them a second time, and returns one future that
  resolves when all have completed. \<open>memoize\<close> runs its function on the first call and
  hands the stored result to every later call.
\<close>

definition register :: "action \<Rightarrow> world \<Rightarrow> world" where
  "register a w = w\<lparr>clean := clean w @ [a]\<rparr>"

definition clean_all :: "env \<Rightarrow> world \<Rightarrow> unit promise \<times> world" where
  "clean_all e w =
     (promise_all (map (teardown e) (clean w)),
      w\<lparr>clean := [], trace := trace w @ map Ran (clean w)\<rparr>)"

text \<open>\<open>const destroy = memoize(() => clean.all())\<close>\<close>

fun destroy :: "env \<Rightarrow> world \<times> session \<Rightarrow> unit promise \<times> world \<times> session" where
  "destroy e (w, s) =
     (case destroy_memo s of
        Some r \<Rightarrow> (r, w, s)
      | None \<Rightarrow>
          (let (r, w1) = clean_all e w
           in (r, w1, s\<lparr>destroy_memo := Some r\<rparr>)))"

subsection \<open>initNative\<close>

definition new_session :: session where
  "new_session =
     \<lparr>approved = False, cancelled = False, didFallback = False, destroy_memo = None,
      click_pending = [], click_settled = [], close_timers = []\<rparr>"

definition isVenmoDesktopPay :: "env \<Rightarrow> bool" where
  "isVenmoDesktopPay e = canUseVenmoDesktopPay e (fundingSource (payment e))"

text \<open>
  The result is the error thrown or the closure state of the new FlowInstance, with the
  world as the call leaves it.
\<close>

definition initNative :: "env \<Rightarrow> world \<Rightarrow> (err + session) \<times> world" where
  "initNative e w =
     (case firebase e of
        None \<Rightarrow> (Inl (Error ''Can not run native flow without firebase config''), w)
      | Some _ \<Rightarrow> (Inr new_session, (snd (clean_all e w))\<lparr>clean := []\<rparr>))"

subsection \<open>Outcome callbacks\<close>

fun fallbackToWebCheckout ::
  "env \<Rightarrow> nat option \<Rightarrow> world \<times> session \<Rightarrow> unit promise \<times> world \<times> session" where
  "fallbackToWebCheckout e fallbackWin (w, s) =
     (let s1 = s\<lparr>didFallback := True\<rparr>;
          checkoutPayment =
            (payment e)\<lparr>win := fallbackWin, isClick := False, isNativeFallback := True\<rparr>;
          h = next_handle w;
          w1 = emit (CheckoutInit h checkoutPayment) (alloc w);
          w2 = register (CheckoutClose h) w1;
          w3 = emit (CheckoutStart h) w2
      in (checkout_start e, w3, s1))"

fun onApproveCallback ::
  "env \<Rightarrow> approve_data \<Rightarrow> world \<times> session \<Rightarrow> string promise \<times> world \<times> session" where
  "onApproveCallback e d (w, s) =
     (let s1 = s\<lparr>approved := True\<rparr>;
          w1 = emit (Telemetry ''native_message_onapprove'') w;
          w2 = emit (UserApprove d True) w1;
          (w3, s3) = (if fst (onApprove e d)
                      then snd (fallbackToWebCheckout e None (w2, s1)) else (w2, s1));
          w4 = (case snd (onApprove e d) of
                  Resolved _ \<Rightarrow> w3
                | Rejected x \<Rightarrow>
                    emit (UserError x) (emit (Telemetry ''native_message_onapprove_error'') w3));
          (rd, w5, s5) = destroy e (w4, s3)
      in (then_return (promise_all [Resolved (), rd]) (buttonSessionID e), w5, s5))"

fun onCancelCallback ::
  "env \<Rightarrow> world \<times> session \<Rightarrow> string promise \<times> world \<times> session" where
  "onCancelCallback e (w, s) =
     (let s1 = s\<lparr>cancelled := True\<rparr>;
          w1 = emit (Telemetry ''native_message_oncancel'') w;
          w2 = emit UserCancel w1;
          (rd, w3, s3) = destroy e (w2, s1)
      in (then_return (promise_all [onCancel e, rd]) (buttonSessionID e), w3, s3))"

fun onErrorCallback ::
  "env \<Rightarrow> string \<Rightarrow> world \<times> session \<Rightarrow> string promise \<times> world \<times> session" where
  "onErrorCallback e message (w, s) =
     (let w1 = emit (Telemetry ''native_message_onerror'') w;
          w2 = emit (UserError (Error message)) w1;
          (rd, w3, s3) = destroy e (w2, s)
      in (then_return (promise_all [onError e (Error message), rd]) (buttonSessionID e),
          w3, s3))"

fun apply_action :: "bool \<Rightarrow> shipping_action \<Rightarrow> bool" where
  "apply_action resolved ActResolve = True"
| "apply_action resolved ActReject = False"

fun onShippingChangeCallback ::
  "env \<Rightarrow> world \<times> session \<Rightarrow> bool promise \<times> world \<times> session" where
  "onShippingChangeCallback e (w, s) =
     (let w1 = emit (Telemetry ''native_message_onshippingchange'') w
      in (case onShippingChange e of
            Some (calls, r) \<Rightarrow>
              (let resolved = foldl apply_action True calls
               in (then_return r resolved, emit UserShippingChange w1, s))
          | None \<Rightarrow> (Resolved True, w1, s)))"

fun onFallbackCallback ::
  "env \<Rightarrow> world \<times> session \<Rightarrow> string promise \<times> world \<times> session" where
  "onFallbackCallback e (w, s) =
     (let w1 = emit (Telemetry ''native_message_onfallback'') w;
          (r, w2, s2) = fallbackToWebCheckout e None (w1, s)
      in (Resolved (buttonSessionID e), w2, s2))"

subsection \<open>Switch detector\<close>

text \<open>
  The callback handed to \<open>getStorageState\<close>: both times default to 0, the three
  comparisons log a diagnostic each, and the time of this switch is written afterwards
  by the caller. \<open>kind\<close> is the prefix of the log names, \<open>app\<close> or \<open>web\<close>.
\<close>

definition switch_diagnostics :: "string \<Rightarrow> world \<Rightarrow> effect list" where
  "switch_diagnostics kind w =
     (let a = (case lastAppSwitchTime w of None \<Rightarrow> 0 | Some t \<Rightarrow> t);
          b = (case lastWebSwitchTime w of None \<Rightarrow> 0 | Some t \<Rightarrow> t)
      in (if a > b then [Telemetry (kind @ ''_switch_detect_with_previous_app_switch'')] else [])
       @ (if b > a then [Telemetry (kind @ ''_switch_detect_with_previous_web_switch'')] else [])
       @ (if a = 0 \<and> b = 0
          then [Telemetry (kind @ ''_switch_detect_with_no_previous_switch'')] else []))"

text \<open>
  \<open>detectAppSwitch\<close> returns the future of \<open>connection.setProps()\<close>, or throws what
  \<open>connectNative\<close> throws.
\<close>

fun detectAppSwitch ::
  "env \<Rightarrow> world \<times> session \<Rightarrow> (err + unit promise) \<times> world \<times> session" where
  "detectAppSwitch e (w, s) =
     (let w1 = w\<lparr>trace := trace w @ switch_diagnostics ''app'' w,
                 lastAppSwitchTime := Some (now w)\<rparr>;
          w2 = emit (Telemetry ''native_detect_app_switch'') w1
      in (case connectNative e of
            Some x \<Rightarrow> (Inl x, w2, s)
          | None \<Rightarrow>
              (let h = next_handle w2;
                   w3 = emit (ConnectionOpened h) (alloc w2);
                   w4 = register (ConnectionCancel h) w3;
                   w5 = emit (SetProps h) w4
               in (Inr (setProps e), w5, s))))"

fun detectWebSwitch ::
  "env \<Rightarrow> nat \<Rightarrow> world \<times> session \<Rightarrow> unit promise \<times> world \<times> session" where
  "detectWebSwitch e fallbackWin (w, s) =
     (let w1 = w\<lparr>trace := trace w @ switch_diagnostics ''web'' w,
                 lastWebSwitchTime := Some (now w)\<rparr>;
          w2 = emit (Telemetry ''native_detect_web_switch'') w1
      in fallbackToWebCheckout e (Some fallbackWin) (w2, s))"

subsection \<open>Close without resolution\<close>

text \<open>
  \<open>onCloseCallback\<close> only starts \<open>ZalgoPromise.delay(1000)\<close>; \<open>onCloseElapsed\<close> is the
  continuation that runs when the delay is over, on the flags as they are then.
\<close>

fun onCloseCallback :: "world \<times> session \<Rightarrow> world \<times> session" where
  "onCloseCallback (w, s) = (w, s\<lparr>close_timers := close_timers s @ [now w + 1000]\<rparr>)"

fun onCloseElapsed ::
  "env \<Rightarrow> world \<times> session \<Rightarrow> unit promise \<times> world \<times> session" where
  "onCloseElapsed e (w, s) =
     (if \<not> approved s \<and> \<not> cancelled s \<and> \<not> didFallback s \<and> \<not> isAndroidChrome e
      then (let w1 = emit UserCancel w;
                (rd, w2, s2) = destroy e (w1, s)
            in (promise_all [onCancel e, rd], w2, s2))
      else (Resolved (), w, s))"

fun fire_timers :: "env \<Rightarrow> nat list \<Rightarrow> world \<times> session \<Rightarrow> world \<times> session" where
  "fire_timers e [] ws = ws"
| "fire_timers e (d # ds) ws = fire_timers e ds (snd (onCloseElapsed e ws))"

text \<open>The clock reaches \<open>t\<close>: every delay that is due by then runs its continuation.\<close>

fun advance :: "env \<Rightarrow> nat \<Rightarrow> world \<times> session \<Rightarrow> world \<times> session" where
  "advance e t (w, s) =
     (let t1 = max t (now w)
      in fire_timers e (filter (\<lambda>d. d \<le> t1) (close_timers s))
           (w\<lparr>now := t1\<rparr>, s\<lparr>close_timers := filter (\<lambda>d. \<not> d \<le> t1) (close_timers s)\<rparr>))"

subsection \<open>click\<close>

text \<open>
  The handler of \<open>.catch\<close> in \<open>click\<close>: \<open>destroy().then(() => { log; throw err })\<close>.
  When \<open>destroy()\<close> rejects, its continuation does not run.
\<close>

fun click_catch ::
  "env \<Rightarrow> err \<Rightarrow> world \<times> session \<Rightarrow> unit promise \<times> world \<times> session" where
  "click_catch e x (w, s) =
     (case destroy e (w, s) of
        (Resolved _, w1, s1) \<Rightarrow> (Rejected x, emit (Telemetry ''native_error'') w1, s1)
      | (Rejected y, w1, s1) \<Rightarrow> (Rejected y, w1, s1))"

text \<open>
  \<open>initQRCode\<close>: the QR component is rendered, then the argument of \<open>connectNative\<close> is
  built. Its \<open>callbacks\<close> literal calls \<open>.then\<close> on \<open>onApproveQR\<close>, \<open>onCancelQR\<close>,
  \<open>onErrorQR\<close>, \<open>onFallbackCallback\<close> and \<open>onShippingChangeCallback\<close>, each an
  arrow function, before \<open>connectNative\<close> itself is called.
\<close>

definition qr_callbacks :: "err + unit" where
  "qr_callbacks =
     then_each [ArrowFunction, ArrowFunction, ArrowFunction, ArrowFunction, ArrowFunction]"

fun initQRCode :: "env \<Rightarrow> world \<times> session \<Rightarrow> (err + unit) \<times> world \<times> session" where
  "initQRCode e (w, s) =
     (let w1 = emit (Telemetry ''VenmoDesktopPay_qrcode'') w;
          w2 = emit QRRendered w1
      in (case qr_callbacks of
            Inl x \<Rightarrow> (Inl x, w2, s)
          | Inr _ \<Rightarrow>
              (case connectNative e of
                 Some x \<Rightarrow> (Inl x, w2, s)
               | None \<Rightarrow>
                   (let h = next_handle w2;
                        w3 = emit (ConnectionOpened h) (alloc w2);
                        w4 = register (ConnectionCancel h) w3
                    in (Inr (), w4, s)))))"

text \<open>
  The future of \<open>click()\<close>: settled, or open until the popup with the given handle
  reports a switch.
\<close>

datatype click_result = ClickSettled "unit promise" | ClickPending nat

text \<open>
  \<open>initPopupAppSwitch\<close>: the executor of \<open>new ZalgoPromise\<close> runs at once; a throw of
  \<open>openNativePopup\<close> rejects the future, otherwise the popup's cancel is registered and
  the future stays open.
\<close>

fun initPopupAppSwitch :: "env \<Rightarrow> world \<times> session \<Rightarrow> click_result \<times> world \<times> session" where
  "initPopupAppSwitch e (w, s) =
     (case openNativePopup e of
        Some x \<Rightarrow> (ClickSettled (Rejected x), w, s)
      | None \<Rightarrow>
          (let h = next_handle w;
               w1 = emit (PopupOpened h) (alloc w);
               w2 = register (PopupCancel h) w1
           in (ClickPending h, w2, s\<lparr>click_pending := click_pending s @ [h]\<rparr>)))"

fun click :: "env \<Rightarrow> world \<times> session \<Rightarrow> click_result \<times> world \<times> session" where
  "click e (w, s) =
     (if isVenmoDesktopPay e
      then (case initQRCode e (w, s) of
              (Inl x, w1, s1) \<Rightarrow>
                (let (r, w2, s2) = click_catch e x (w1, s1) in (ClickSettled r, w2, s2))
            | (Inr _, w1, s1) \<Rightarrow> (ClickSettled (Resolved ()), w1, s1))
      else (case initPopupAppSwitch e (w, s) of
              (ClickSettled (Rejected x), w1, s1) \<Rightarrow>
                (let (r, w2, s2) = click_catch e x (w1, s1) in (ClickSettled r, w2, s2))
            | (r, w1, s1) \<Rightarrow> (r, w1, s1)))"

text \<open>
  \<open>.then(resolve, reject)\<close> in a popup callback settles the future of the click that
  opened popup \<open>p\<close>, once; a rejection runs the \<open>.catch\<close> handler of that click.
\<close>

fun settle_click :: "env \<Rightarrow> nat \<Rightarrow> unit promise \<Rightarrow> world \<times> session \<Rightarrow> world \<times> session" where
  "settle_click e p r (w, s) =
     (if p \<in> set (click_pending s)
      then (let s1 = s\<lparr>click_pending := removeAll p (click_pending s)\<rparr>
            in (case r of
                  Resolved _ \<Rightarrow> (w, s1\<lparr>click_settled := click_settled s1 @ [(p, Resolved ())]\<rparr>)
                | Rejected x \<Rightarrow>
                    (let (r2, w2, s2) = click_catch e x (w, s1)
                     in (w2, s2\<lparr>click_settled := click_settled s2 @ [(p, r2)]\<rparr>))))
      else (w, s))"

text \<open>
  The popup's callbacks \<open>onDetectWebSwitch\<close> and \<open>onDetectAppSwitch\<close>. A throw inside
  \<open>detectAppSwitch\<close> leaves the callback before \<open>.then(resolve, reject)\<close> is attached
  and goes to the popup that called it.
\<close>

fun onDetectWebSwitch ::
  "env \<Rightarrow> nat \<Rightarrow> nat \<Rightarrow> world \<times> session \<Rightarrow> (err + unit) \<times> world \<times> session" where
  "onDetectWebSwitch e p fallbackWin (w, s) =
     (let (r, w1, s1) = detectWebSwitch e fallbackWin (w, s)
      in (Inr (), settle_click e p r (w1, s1)))"

fun onDetectAppSwitch ::
  "env \<Rightarrow> nat \<Rightarrow> world \<times> session \<Rightarrow> (err + unit) \<times> world \<times> session" where
  "onDetectAppSwitch e p (w, s) =
     (case detectAppSwitch e (w, s) of
        (Inl x, w1, s1) \<Rightarrow> (Inl x, w1, s1)
      | (Inr r, w1, s1) \<Rightarrow> (Inr (), settle_click e p r (w1, s1)))"

subsection \<open>Sequences of callbacks\<close>

text \<open>
  What can reach one FlowInstance: the messages of a connection or popup, the popup's
  switch detection and close, \<open>onDestroy\<close> and \<open>FlowInstance.close()\<close> (both are
  \<open>destroy\<close>), \<open>click()\<close>, a later call of \<open>actions.restart()\<close> by the approve
  handler, and the passing of time.
\<close>

datatype event =
    Approve approve_data
  | Cancel
  | ErrorMessage string
  | Fallback
  | ShippingChange
  | Close
  | Destroy
  | Click
  | Restart
  | DetectWebSwitch nat nat
  | DetectAppSwitch nat
  | Tick nat

fun step :: "env \<Rightarrow> event \<Rightarrow> world \<times> session \<Rightarrow> world \<times> session" where
  "step e (Approve d) ws = snd (onApproveCallback e d ws)"
| "step e Cancel ws = snd (onCancelCallback e ws)"
| "step e (ErrorMessage m) ws = snd (onErrorCallback e m ws)"
| "step e Fallback ws = snd (onFallbackCallback e ws)"
| "step e ShippingChange ws = snd (onShippingChangeCallback e ws)"
| "step e Close ws = onCloseCallback ws"
| "step e Destroy ws = snd (destroy e ws)"
| "step e Click ws = snd (click e ws)"
| "step e Restart ws = snd (fallbackToWebCheckout e None ws)"
| "step e (DetectWebSwitch p fallbackWin) ws = snd (onDetectWebSwitch e p fallbackWin ws)"
| "step e (DetectAppSwitch p) ws = snd (onDetectAppSwitch e p ws)"
| "step e (Tick t) ws = advance e t ws"

fun run :: "env \<Rightarrow> event list \<Rightarrow> world \<times> session \<Rightarrow> world \<times> session" where
  "run e [] ws = ws"
| "run e (ev # evs) ws = run e evs (step e ev ws)"

text \<open>The teardown actions run so far, and the handles opened and not yet released.\<close>

fun ran_actions :: "effect list \<Rightarrow> action list" where
  "ran_actions [] = []"
| "ran_actions (Ran a # es) = a # ran_actions es"
| "ran_actions (_ # es) = ran_actions es"

fun opened_connections :: "effect list \<Rightarrow> nat list" where
  "opened_connections [] = []"
| "opened_connections (ConnectionOpened h # es) = h # opened_connections es"
| "opened_connections (_ # es) = opened_connections es"

fun opened_popups :: "effect list \<Rightarrow> nat list" where
  "opened_popups [] = []"
| "opened_popups (PopupOpened h # es) = h # opened_popups es"
| "opened_popups (_ # es) = opened_popups es"

definition live_connections :: "world \<Rightarrow> nat list" where
  "live_connections w =
     filter (\<lambda>h. ConnectionCancel h \<notin> set (ran_actions (trace w))) (opened_connections (trace w))"

definition live_popups :: "world \<Rightarrow> nat list" where
  "live_popups w =
     filter (\<lambda>h. PopupCancel h \<notin> set (ran_actions (trace w))) (opened_popups (trace w))"

definition world0 :: world where
  "world0 =
     \<lparr>clean = [], lastAppSwitchTime = None, lastWebSwitchTime = None, now = 0,
      next_handle = 0, trace = []\<rparr>"

text \<open>
  Handles come from one counter, so two registered actions are never the same action:
  every action still registered or already run has a handle below the counter, and none
  occurs twice. \<open>initNative\<close> on \<open>world0\<close> starts in such a world and every callback
  keeps it so.
\<close>

definition handles_fresh :: "world \<Rightarrow> bool" where
  "handles_fresh w \<longleftrightarrow>
     distinct (clean w @ ran_actions (trace w)) \<and>
     list_all (\<lambda>a. handle_of a < next_handle w) (clean w @ ran_actions (trace w))"

subsection \<open>A merchant page for the examples\<close>

definition demo_payment :: payment where
  "demo_payment =
     \<lparr>fundingSource = ''venmo'', win = None, isClick = True, isNativeFallback = False\<rparr>"

definition demo_env :: env where
  "demo_env =
     \<lparr>buttonSessionID = ''uid_button_session'',
      firebase = Some ''firebase_config'',
      payment = demo_payment,
      canUseVenmoDesktopPay = (\<lambda>f. False),
      onApprove = (\<lambda>d. (False, Resolved ())),
      onCancel = Resolved (),
      onError = (\<lambda>x. Resolved ()),
      onShippingChange = None,
      isAndroidChrome = False,
      teardown = (\<lambda>a. Resolved ()),
      openNativePopup = None,
      connectNative = None,
      setProps = Resolved (),
      checkout_start = Resolved ()\<rparr>"

definition demo_data :: approve_data where
  "demo_data = \<lparr>payerID = ''PAYER'', paymentID = None, billingToken = None\<rparr>"

section \<open>Button load logging (triggerButtonLogs)\<close>

text \<open>
  \<open>Number.prototype.toString()\<close> on a natural number below \<open>10^21\<close>: its decimal
  digits. The element count and the page render time are taken as such numbers.
\<close>

definition digit :: "nat \<Rightarrow> char" where
  "digit d = char_of (48 + d)"

fun toString :: "nat \<Rightarrow> string" where
  "toString n = (if n div 10 = 0 then [digit n] else toString (n div 10) @ [digit (n mod 10)])"

declare toString.simps [simp del]

fun join :: "string \<Rightarrow> string list \<Rightarrow> string" where
  "join sep [] = []"
| "join sep [x] = x"
| "join sep (x # y # ys) = x @ sep @ join sep (y # ys)"

record button_style =
  style_layout :: "string option"
  style_color :: "string option"
  style_size :: "string option"
  style_shape :: "string option"
  style_label :: "string option"

record xprops =
  style :: "button_style option"

text \<open>
  What \<open>triggerButtonLogs\<close> reads: \<open>isIEIntranet()\<close>, \<open>window.xprops\<close>, the future of
  \<open>getPageRenderTime()\<close>, the elements carrying the funding-source attribute (each with
  its card attribute, if it has one, and its funding-source attribute), the name of the
  card funding source (\<open>FUNDING.CARD\<close>) and \<open>window.innerWidth\<close>.
\<close>

record page =
  isIEIntranet :: bool
  window_xprops :: "xprops option"
  getPageRenderTime :: "nat option promise"
  funding_elements :: "(string option \<times> string) list"
  FUNDING_CARD :: string
  innerWidth :: nat

record button_load =
  funding_list :: string
  funding_count :: string
  page_load_time :: string
  button_layout :: "string option"
  button_color :: "string option"
  button_size :: "string option"
  button_shape :: "string option"
  button_label :: "string option"
  button_width :: nat

datatype log_call = Warn string | Track button_load | Flush

definition fundingSources :: "page \<Rightarrow> string list" where
  "fundingSources pg =
     filter (\<lambda>source. source \<noteq> [] \<and> source \<noteq> FUNDING_CARD pg)
       (map (\<lambda>(card, funding). (case card of
                                  Some c \<Rightarrow> (if c \<noteq> [] then c else funding)
                                | None \<Rightarrow> funding))
            (funding_elements pg))"

definition button_load_record :: "page \<Rightarrow> xprops \<Rightarrow> nat option \<Rightarrow> button_load" where
  "button_load_record pg xp pageRenderTime =
     (let st = (case style xp of
                  Some st \<Rightarrow> st
                | None \<Rightarrow> \<lparr>style_layout = None, style_color = None, style_size = None,
                            style_shape = None, style_label = None\<rparr>)
      in \<lparr>funding_list = join '':'' (fundingSources pg),
          funding_count = toString (length (fundingSources pg)),
          page_load_time = (case pageRenderTime of
                              Some t \<Rightarrow> (if t \<noteq> 0 then toString t else [])
                            | None \<Rightarrow> []),
          button_layout = style_layout st,
          button_color = style_color st,
          button_size = style_size st,
          button_shape = style_shape st,
          button_label = style_label st,
          button_width = innerWidth pg\<rparr>)"

text \<open>
  The result is what the call throws or returns, with the calls made on the logger. The
  record is tracked in the continuation of \<open>getPageRenderTime()\<close>, which runs only when
  that future resolves.
\<close>

definition triggerButtonLogs :: "page \<Rightarrow> (err + unit) \<times> log_call list" where
  "triggerButtonLogs pg =
     (let warned = (if isIEIntranet pg then [Warn ''button_child_intranet_mode''] else [])
      in (case window_xprops pg of
            None \<Rightarrow> (Inl (Error ''No xprops found''), warned)
          | Some xp \<Rightarrow>
              (Inr (),
               warned @ (case getPageRenderTime pg of
                           Resolved t \<Rightarrow> [Track (button_load_record pg xp t), Flush]
                         | Rejected _ \<Rightarrow> []))))"

definition demo_page :: page where
  "demo_page =
     \<lparr>isIEIntranet = True, window_xprops = None, getPageRenderTime = Resolved (Some 120),
      funding_elements = [(None, ''paypal''), (Some ''visa'', ''card'')],
      FUNDING_CARD = ''card'', innerWidth = 300\<rparr>"

section \<open>Properties of the native flow\<close>

declare destroy.simps [simp del] fallbackToWebCheckout.simps [simp del]
  detectWebSwitch.simps [simp del] detectAppSwitch.simps [simp del]
  click_catch.simps [simp del] settle_click.simps [simp del]
  onCloseElapsed.simps [simp del]

subsection \<open>Traces\<close>

lemma promise_all_single [simp]: "promise_all [r] = r"
  by (cases r) auto

lemma ran_actions_append [simp]: "ran_actions (xs @ ys) = ran_actions xs @ ran_actions ys"
  by (induction xs rule: ran_actions.induct) auto

lemma ran_actions_map_Ran [simp]: "ran_actions (map Ran as) = as"
  by (induction as) auto

subsection \<open>What destroy and the fallback do\<close>

lemma destroy_cases:
  "destroy e (w, s) = (r, w', s') \<Longrightarrow>
     (destroy_memo s = Some r \<and> w' = w \<and> s' = s) \<or>
     (destroy_memo s = None \<and> r = promise_all (map (teardown e) (clean w)) \<and>
      w' = w\<lparr>clean := [], trace := trace w @ map Ran (clean w)\<rparr> \<and>
      s' = s\<lparr>destroy_memo := Some r\<rparr>)"
  by (auto simp: destroy.simps Let_def clean_all_def split: option.splits prod.splits)



lemma fallback_cases:
  "fallbackToWebCheckout e fw (w, s) = (r, w', s') \<Longrightarrow>
     r = checkout_start e \<and> s' = s\<lparr>didFallback := True\<rparr> \<and>
     w' = w\<lparr>next_handle := Suc (next_handle w),
            clean := clean w @ [CheckoutClose (next_handle w)],
            trace := trace w @
              [CheckoutInit (next_handle w)
                 ((payment e)\<lparr>win := fw, isClick := False, isNativeFallback := True\<rparr>),
               CheckoutStart (next_handle w)]\<rparr>"
  by (auto simp: fallbackToWebCheckout.simps Let_def emit_def register_def alloc_def)

subsection \<open>What the switch detection and the catch of click do\<close>

lemma opened_connections_append [simp]:
  "opened_connections (xs @ ys) = opened_connections xs @ opened_connections ys"
  by (induction xs rule: opened_connections.induct) auto

lemma opened_connections_map_Ran [simp]: "opened_connections (map Ran as) = []"
  by (induction as) auto

lemma opened_connections_diagnostics [simp]:
  "opened_connections (switch_diagnostics kind w) = []"
  by (simp add: switch_diagnostics_def Let_def)

lemma count_UserCancel_map_Ran [simp]: "count_list (map Ran as) UserCancel = 0"
  by (induction as) auto

lemma detectWebSwitch_cases:
  "detectWebSwitch e fw (w, s) = (r, w', s') \<Longrightarrow>
     r = checkout_start e \<and> s' = s\<lparr>didFallback := True\<rparr> \<and>
     w' = w\<lparr>lastWebSwitchTime := Some (now w),
            next_handle := Suc (next_handle w),
            clean := clean w @ [CheckoutClose (next_handle w)],
            trace := trace w @ switch_diagnostics ''web'' w @
              [Telemetry ''native_detect_web_switch'',
               CheckoutInit (next_handle w)
                 ((payment e)\<lparr>win := Some fw, isClick := False, isNativeFallback := True\<rparr>),
               CheckoutStart (next_handle w)]\<rparr>"
  by (auto simp: detectWebSwitch.simps Let_def emit_def dest!: fallback_cases)

lemma click_catch_cases:
  "click_catch e x (w, s) = (r, w', s') \<Longrightarrow>
     (\<exists>w1. destroy e (w, s) = (Resolved (), w1, s') \<and> r = Rejected x \<and>
           w' = emit (Telemetry ''native_error'') w1) \<or>
     (\<exists>y. destroy e (w, s) = (Rejected y, w', s') \<and> r = Rejected y)"
  by (auto simp: click_catch.simps split: prod.splits promise.splits)

lemma click_catch_trace:
  "click_catch e x (w, s) = (r, w', s') \<Longrightarrow>
     \<exists>post. trace w' = trace w @ post \<and> opened_connections post = []"
  by (auto simp: emit_def dest!: click_catch_cases destroy_cases)

lemma click_catch_session:
  "click_catch e x (w, s) = (r, w', s') \<Longrightarrow>
     s' = s \<or> s' = s\<lparr>destroy_memo := destroy_memo s'\<rparr>"
  by (auto dest!: click_catch_cases destroy_cases)

lemma click_catch_world:
  "click_catch e x (w, s) = (r, w', s') \<Longrightarrow>
     lastWebSwitchTime w' = lastWebSwitchTime w \<and> lastAppSwitchTime w' = lastAppSwitchTime w
     \<and> now w' = now w \<and> next_handle w' = next_handle w"
  by (auto simp: emit_def dest!: click_catch_cases destroy_cases)

lemma settle_click_trace:
  "settle_click e p r (w, s) = (w', s') \<Longrightarrow>
     \<exists>post. trace w' = trace w @ post \<and> opened_connections post = []"
  by (auto simp: settle_click.simps Let_def split: if_splits promise.splits prod.splits
      dest!: click_catch_trace)

lemma settle_click_frame:
  "settle_click e p r (w, s) = (w', s') \<Longrightarrow>
     lastWebSwitchTime w' = lastWebSwitchTime w \<and> lastAppSwitchTime w' = lastAppSwitchTime w
     \<and> now w' = now w \<and> next_handle w' = next_handle w \<and> didFallback s' = didFallback s
     \<and> approved s' = approved s \<and> cancelled s' = cancelled s"
  apply (simp add: settle_click.simps Let_def split: if_splits promise.splits prod.splits)
   apply (auto dest!: click_catch_cases destroy_cases simp: emit_def)
  done

subsection \<open>The close continuation and the approve callback\<close>

lemma fallback_eq:
  "fallbackToWebCheckout e fw (w, s) =
     (checkout_start e,
      w\<lparr>next_handle := Suc (next_handle w),
        clean := clean w @ [CheckoutClose (next_handle w)],
        trace := trace w @
          [CheckoutInit (next_handle w)
             ((payment e)\<lparr>win := fw, isClick := False, isNativeFallback := True\<rparr>),
           CheckoutStart (next_handle w)]\<rparr>,
      s\<lparr>didFallback := True\<rparr>)"
  by (simp add: fallbackToWebCheckout.simps Let_def emit_def register_def alloc_def)

lemma onApproveCallback_UserCancel:
  "onApproveCallback e d (w, s) = (r, w', s') \<Longrightarrow>
     approved s' \<and> close_timers s' = close_timers s \<and> now w' = now w \<and>
     count_list (trace w') UserCancel = count_list (trace w) UserCancel"
  apply (simp add: Let_def fallback_eq split: prod.splits if_splits promise.splits)
     apply (auto dest!: destroy_cases simp: emit_def)
  done

lemma onCloseElapsed_settled:
  "approved s \<or> cancelled s \<or> didFallback s \<or> isAndroidChrome e \<Longrightarrow>
     onCloseElapsed e (w, s) = (Resolved (), w, s)"
  by (auto simp: onCloseElapsed.simps)

lemma onCloseElapsed_cancels:
  assumes "\<not> approved s" "\<not> cancelled s" "\<not> didFallback s" "\<not> isAndroidChrome e"
      and "onCloseElapsed e (w, s) = (r, w', s')"
  shows "trace w' = trace w @ UserCancel # map Ran (case destroy_memo s of None \<Rightarrow> clean w | Some _ \<Rightarrow> [])
     \<and> destroy_memo s' \<noteq> None \<and> (destroy_memo s = None \<longrightarrow> clean w' = [])"
  using assms
  by (auto simp: onCloseElapsed.simps Let_def emit_def split: prod.splits dest!: destroy_cases)

text \<open>A close that is waiting does not change what the continuations before it do.\<close>

lemma destroy_timers:
  "destroy e (w, s\<lparr>close_timers := ts\<rparr>) =
     (case destroy e (w, s) of (r, w', s') \<Rightarrow> (r, w', s'\<lparr>close_timers := ts\<rparr>))"
  by (simp add: destroy.simps split_beta split: option.splits)

lemma onCloseElapsed_timers:
  "onCloseElapsed e (w, s\<lparr>close_timers := ts\<rparr>) =
     (case onCloseElapsed e (w, s) of (r, w', s') \<Rightarrow> (r, w', s'\<lparr>close_timers := ts\<rparr>))"
  by (simp add: onCloseElapsed.simps destroy_timers Let_def split_beta)

lemma fire_timers_timers:
  "fire_timers e ds (w, s\<lparr>close_timers := ts\<rparr>) =
     (case fire_timers e ds (w, s) of (w', s') \<Rightarrow> (w', s'\<lparr>close_timers := ts\<rparr>))"
proof (induction ds arbitrary: w s)
  case Nil
  then show ?case by simp
next
  case (Cons d ds)
  obtain r w1 s1 where el: "onCloseElapsed e (w, s) = (r, w1, s1)"
    by (metis prod_cases3)
  show ?case
    using Cons [of w1 s1] by (simp add: onCloseElapsed_timers el)
qed

lemma fire_timers_append:
  "fire_timers e (ds @ [d]) ws = snd (onCloseElapsed e (fire_timers e ds ws))"
  by (induction ds arbitrary: ws) simp_all

lemma onCloseElapsed_keeps_timers:
  "close_timers (snd (snd (onCloseElapsed e ws))) = close_timers (snd ws)"
  by (cases ws; cases "destroy e (emit UserCancel (fst ws), snd ws)")
     (auto simp: onCloseElapsed.simps Let_def dest!: destroy_cases)

lemma fire_timers_keeps_timers:
  "close_timers (snd (fire_timers e ds ws)) = close_timers (snd ws)"
  by (induction ds arbitrary: ws) (simp_all add: onCloseElapsed_keeps_timers)

lemma close_waits:
  assumes "t < now w + 1000"
  shows "advance e t (onCloseCallback (w, s)) =
           (case advance e t (w, s) of
              (w', s') \<Rightarrow> (w', s'\<lparr>close_timers := close_timers s' @ [now w + 1000]\<rparr>))"
proof -
  let ?t1 = "max t (now w)"
  let ?due = "filter (\<lambda>d. d \<le> ?t1) (close_timers s)"
  let ?rest = "filter (\<lambda>d. \<not> d \<le> ?t1) (close_timers s)"
  obtain w' s' where f:
    "fire_timers e ?due (w\<lparr>now := ?t1\<rparr>, s\<lparr>close_timers := ?rest\<rparr>) = (w', s')"
    by (metis surj_pair)
  have k: "close_timers s' = ?rest"
    using fire_timers_keeps_timers [of e ?due "(w\<lparr>now := ?t1\<rparr>, s\<lparr>close_timers := ?rest\<rparr>)"] f
    by simp
  have nd: "\<not> now w + 1000 \<le> ?t1"
    using assms by (simp add: max_def)
  have "advance e t (onCloseCallback (w, s)) =
      fire_timers e ?due (w\<lparr>now := ?t1\<rparr>,
        (s\<lparr>close_timers := ?rest\<rparr>)\<lparr>close_timers := ?rest @ [now w + 1000]\<rparr>)"
    using nd by (simp add: Let_def)
  also have "\<dots> = (w', s'\<lparr>close_timers := ?rest @ [now w + 1000]\<rparr>)"
    using fire_timers_timers
      [where e = e and ds = ?due and w = "w\<lparr>now := ?t1\<rparr>"
         and s = "s\<lparr>close_timers := ?rest\<rparr>" and ts = "?rest @ [now w + 1000]"] f
    by simp
  finally show ?thesis
    using f k by (simp add: Let_def)
qed

lemma close_elapses:
  assumes "now w + 1000 \<le> t"
  shows "advance e t (onCloseCallback (w, s)) = snd (onCloseElapsed e (advance e t (w, s)))"
  using assms by (simp add: Let_def fire_timers_append max_def)

lemma onCloseElapsed_keeps_flags:
  "approved (snd (snd (onCloseElapsed e ws))) = approved (snd ws) \<and>
   cancelled (snd (snd (onCloseElapsed e ws))) = cancelled (snd ws) \<and>
   didFallback (snd (snd (onCloseElapsed e ws))) = didFallback (snd ws)"
  by (cases ws; cases "destroy e (emit UserCancel (fst ws), snd ws)")
     (auto simp: onCloseElapsed.simps Let_def dest!: destroy_cases)

lemma fire_timers_keeps_flags:
  "approved (snd (fire_timers e ds ws)) = approved (snd ws) \<and>
   cancelled (snd (fire_timers e ds ws)) = cancelled (snd ws) \<and>
   didFallback (snd (fire_timers e ds ws)) = didFallback (snd ws)"
  by (induction ds arbitrary: ws) (simp_all add: onCloseElapsed_keeps_flags)

lemma advance_keeps_flags:
  "approved (snd (advance e t ws)) = approved (snd ws) \<and>
   cancelled (snd (advance e t ws)) = cancelled (snd ws) \<and>
   didFallback (snd (advance e t ws)) = didFallback (snd ws)"
  by (cases ws) (simp add: Let_def fire_timers_keeps_flags)

lemma fire_timers_settled:
  "approved s \<Longrightarrow> fire_timers e ds (w, s) = (w, s)"
  by (induction ds) (simp_all add: onCloseElapsed_settled)

lemma advance_settled:
  "approved s \<Longrightarrow>
   advance e t (w, s) =
     (w\<lparr>now := max t (now w)\<rparr>,
      s\<lparr>close_timers := filter (\<lambda>d. \<not> d \<le> max t (now w)) (close_timers s)\<rparr>)"
  by (simp add: Let_def fire_timers_settled)

subsection \<open>Handles stay fresh\<close>

lemma ran_actions_diagnostics [simp]: "ran_actions (switch_diagnostics kind w) = []"
  by (simp add: switch_diagnostics_def Let_def)


lemma handles_fresh_all:
  assumes "handles_fresh w"
      and "clean w' = []"
      and "ran_actions (trace w') = ran_actions (trace w) @ clean w"
      and "next_handle w' = next_handle w"
  shows "handles_fresh w'"
  using assms unfolding handles_fresh_def list_all_iff by auto


lemma handles_fresh_emit [simp]:
  "ran_actions [ef] = [] \<Longrightarrow> handles_fresh (emit ef w) = handles_fresh w"
  by (simp add: handles_fresh_def emit_def)














lemma detectWebSwitch_eq:
  "detectWebSwitch e fw (w, s) =
     (checkout_start e,
      w\<lparr>lastWebSwitchTime := Some (now w),
        next_handle := Suc (next_handle w),
        clean := clean w @ [CheckoutClose (next_handle w)],
        trace := trace w @ switch_diagnostics ''web'' w @
          [Telemetry ''native_detect_web_switch'',
           CheckoutInit (next_handle w)
             ((payment e)\<lparr>win := Some fw, isClick := False, isNativeFallback := True\<rparr>),
           CheckoutStart (next_handle w)]\<rparr>,
      s\<lparr>didFallback := True\<rparr>)"
  by (simp add: detectWebSwitch.simps Let_def emit_def fallback_eq)

lemma detectAppSwitch_eq:
  "detectAppSwitch e (w, s) =
     (case connectNative e of
        Some x \<Rightarrow>
          (Inl x,
           w\<lparr>lastAppSwitchTime := Some (now w),
             trace := trace w @ switch_diagnostics ''app'' w @
               [Telemetry ''native_detect_app_switch'']\<rparr>, s)
      | None \<Rightarrow>
          (Inr (setProps e),
           w\<lparr>lastAppSwitchTime := Some (now w),
             next_handle := Suc (next_handle w),
             clean := clean w @ [ConnectionCancel (next_handle w)],
             trace := trace w @ switch_diagnostics ''app'' w @
               [Telemetry ''native_detect_app_switch'', ConnectionOpened (next_handle w),
                SetProps (next_handle w)]\<rparr>, s))"
  by (simp add: detectAppSwitch.simps Let_def emit_def register_def alloc_def
      split: option.splits)





lemma qr_callbacks_throws: "qr_callbacks = Inl (TypeError ''then is not a function'')"
  by (simp add: qr_callbacks_def)

lemma initQRCode_eq:
  "initQRCode e (w, s) =
     (Inl (TypeError ''then is not a function''),
      w\<lparr>trace := trace w @ [Telemetry ''VenmoDesktopPay_qrcode'', QRRendered]\<rparr>, s)"
  by (simp add: qr_callbacks_throws Let_def emit_def)

lemma initPopupAppSwitch_eq:
  "initPopupAppSwitch e (w, s) =
     (case openNativePopup e of
        Some x \<Rightarrow> (ClickSettled (Rejected x), w, s)
      | None \<Rightarrow>
          (ClickPending (next_handle w),
           w\<lparr>next_handle := Suc (next_handle w),
             clean := clean w @ [PopupCancel (next_handle w)],
             trace := trace w @ [PopupOpened (next_handle w)]\<rparr>,
           s\<lparr>click_pending := click_pending s @ [next_handle w]\<rparr>))"
  by (simp add: Let_def emit_def register_def alloc_def split: option.splits)

declare initQRCode.simps [simp del] initPopupAppSwitch.simps [simp del] click.simps [simp del]

lemma click_qr:
  "isVenmoDesktopPay e \<Longrightarrow>
   click e (w, s) =
     (case click_catch e (TypeError ''then is not a function'')
             (w\<lparr>trace := trace w @ [Telemetry ''VenmoDesktopPay_qrcode'', QRRendered]\<rparr>, s)
      of (r, w2, s2) \<Rightarrow> (ClickSettled r, w2, s2))"
  by (simp add: click.simps initQRCode_eq)

lemma click_popup_thrown:
  "\<not> isVenmoDesktopPay e \<Longrightarrow> openNativePopup e = Some x \<Longrightarrow>
   click e (w, s) = (case click_catch e x (w, s) of (r, w2, s2) \<Rightarrow> (ClickSettled r, w2, s2))"
  by (simp add: click.simps initPopupAppSwitch_eq)

lemma click_popup:
  "\<not> isVenmoDesktopPay e \<Longrightarrow> openNativePopup e = None \<Longrightarrow>
   click e (w, s) =
     (ClickPending (next_handle w),
      w\<lparr>next_handle := Suc (next_handle w),
        clean := clean w @ [PopupCancel (next_handle w)],
        trace := trace w @ [PopupOpened (next_handle w)]\<rparr>,
      s\<lparr>click_pending := click_pending s @ [next_handle w]\<rparr>)"
  by (simp add: click.simps initPopupAppSwitch_eq)









lemma handles_fresh_initNative:
  "handles_fresh w \<Longrightarrow> handles_fresh (snd (initNative e w))"
  by (cases "firebase e")
     (auto simp: initNative_def clean_all_def intro: handles_fresh_all [where w = w])

subsection \<open>Destroy, the catch of click and live handles\<close>




















lemma opened_popups_append [simp]:
  "opened_popups (xs @ ys) = opened_popups xs @ opened_popups ys"
  by (induction xs rule: opened_popups.induct) auto

lemma opened_popups_map_Ran [simp]: "opened_popups (map Ran as) = []"
  by (induction as) auto

lemma click_catch_outcome:
  assumes "click_catch e x (w, s) = (r, w', s')"
  shows "destroy_memo s' \<noteq> None \<and>
         (destroy_memo s = None \<longrightarrow>
            clean w' = [] \<and> ran_actions (trace w') = ran_actions (trace w) @ clean w) \<and>
         (destroy_memo s' = Some (Resolved ()) \<longrightarrow>
            r = Rejected x \<and>
            trace w' = trace w
              @ map Ran (case destroy_memo s of None \<Rightarrow> clean w | Some _ \<Rightarrow> [])
              @ [Telemetry ''native_error'']) \<and>
         click_pending s' = click_pending s \<and> click_settled s' = click_settled s"
  using click_catch_cases [OF assms]
  by (auto simp: emit_def dest!: destroy_cases)

lemma live_connections_cong:
  "opened_connections (trace w') = opened_connections (trace w) \<Longrightarrow>
   ran_actions (trace w') = ran_actions (trace w) \<Longrightarrow>
   live_connections w' = live_connections w"
  by (simp add: live_connections_def)

lemma settle_click_rejected:
  assumes "p \<in> set (click_pending s)"
      and "click_catch e x (w, s\<lparr>click_pending := removeAll p (click_pending s)\<rparr>) = (r, w', s')"
  shows "settle_click e p (Rejected x) (w, s) =
           (w', s'\<lparr>click_settled := click_settled s' @ [(p, r)]\<rparr>)"
  using assms by (simp add: settle_click.simps Let_def)

subsection \<open>Missing firebase configuration\<close>

text \<open>
  C9. Called with a config that has no firebase entry, \<open>initNative\<close> throws at once: the
  result is the error and no FlowInstance, and the world is the one it was called in, so
  nothing was opened, torn down or replaced before the throw and nothing is done after it.
\<close>

theorem initNative_without_firebase_throws:
  "firebase e = None \<Longrightarrow>
     initNative e w = (Inl (Error ''Can not run native flow without firebase config''), w)"
  by (simp add: initNative_def)

theorem initNative_without_firebase_throws_witness:
  "firebase (demo_env\<lparr>firebase := None\<rparr>) = None \<and>
   initNative (demo_env\<lparr>firebase := None\<rparr>) world0 =
     (Inl (Error ''Can not run native flow without firebase config''), world0)"
  using initNative_without_firebase_throws [of "demo_env\<lparr>firebase := None\<rparr>" world0]
  by simp

subsection \<open>Shipping change\<close>

lemma foldl_apply_action:
  "foldl apply_action b calls = (if calls = [] then b else last calls = ActResolve)"
proof (induction calls arbitrary: b)
  case Nil
  then show ?case by simp
next
  case (Cons c cs)
  then show ?case by (cases c) auto
qed

text \<open>
  C8, as stated, fails: a handler is supplied and its future rejects; the callback then
  rejects with the handler's reason and reports no value of \<open>resolved\<close>.
\<close>

theorem shipping_change_rejecting_handler_rejects:
  "fst (onShippingChangeCallback
          (demo_env\<lparr>onShippingChange := Some ([ActResolve], Rejected (Error ''address''))\<rparr>)
          (world0, new_session)) = Rejected (Error ''address'')"
  by (simp add: demo_env_def)

text \<open>
  C8, amended. Without a user handler the shipping-change callback resolves with
  \<open>resolved = true\<close>. With a handler whose future resolves, it resolves with the value
  set by the action the handler invoked last, and with \<open>true\<close> when the handler invoked
  neither \<open>resolve\<close> nor \<open>reject\<close>. With a handler whose future rejects, the callback
  rejects with the same reason.
\<close>

theorem shipping_change_reports_last_action:
  "(onShippingChange e = None \<longrightarrow>
      fst (onShippingChangeCallback e (w, s)) = Resolved True) \<and>
   (onShippingChange e = Some (calls, Resolved ()) \<longrightarrow>
      fst (onShippingChangeCallback e (w, s)) =
        Resolved (if calls = [] then True else last calls = ActResolve)) \<and>
   (onShippingChange e = Some (calls, Rejected x) \<longrightarrow>
      fst (onShippingChangeCallback e (w, s)) = Rejected x)"
  by (simp add: foldl_apply_action)

theorem shipping_change_reports_last_action_witness:
  "onShippingChange (demo_env\<lparr>onShippingChange := Some ([ActResolve, ActReject], Resolved ())\<rparr>)
     = Some ([ActResolve, ActReject], Resolved ()) \<and>
   fst (onShippingChangeCallback
          (demo_env\<lparr>onShippingChange := Some ([ActResolve, ActReject], Resolved ())\<rparr>)
          (world0, new_session)) = Resolved False \<and>
   onShippingChange demo_env = None \<and>
   fst (onShippingChangeCallback demo_env (world0, new_session)) = Resolved True"
  using shipping_change_reports_last_action
    [where e = "demo_env\<lparr>onShippingChange := Some ([ActResolve, ActReject], Resolved ())\<rparr>"
       and w = world0 and s = new_session and calls = "[ActResolve, ActReject]"]
    shipping_change_reports_last_action
    [where e = demo_env and w = world0 and s = new_session]
  by (simp add: demo_env_def)

subsection \<open>Rejection of the approve handler\<close>



subsection \<open>Web switch\<close>

text \<open>
  C7. When the popup's \<open>onDetectWebSwitch\<close> callback fires, the switch detector writes
  the current time as the last web-switch time, and a web checkout flow is created and
  started on the payment of the flow with \<open>isNativeFallback\<close> set, \<open>isClick\<close>
  cleared and the window handle that the popup passed. No native connection is opened on
  this path: the connections opened are those opened before.
\<close>

theorem web_switch_starts_web_checkout:
  assumes call: "onDetectWebSwitch e p fw (w, s) = (r, w', s')"
  shows "lastWebSwitchTime w' = Some (now w) \<and> didFallback s' \<and>
    (\<exists>pre mid post. trace w' = trace w @ pre @
        [CheckoutInit (next_handle w)
           ((payment e)\<lparr>win := Some fw, isClick := False, isNativeFallback := True\<rparr>)]
        @ mid @ [CheckoutStart (next_handle w)] @ post) \<and>
    opened_connections (trace w') = opened_connections (trace w)"
proof -
  obtain r1 w1 s1 where dw: "detectWebSwitch e fw (w, s) = (r1, w1, s1)"
    by (metis prod_cases3)
  from call dw have st: "settle_click e p r1 (w1, s1) = (w', s')"
    by (simp add: Let_def)
  note c = detectWebSwitch_cases [OF dw]
  obtain post where post: "trace w' = trace w1 @ post" "opened_connections post = []"
    using settle_click_trace [OF st] by blast
  have "lastWebSwitchTime w' = Some (now w)"
    using settle_click_frame [OF st] c by simp
  moreover have "didFallback s'"
    using settle_click_frame [OF st] c by simp
  moreover have "trace w' =
      trace w @ (switch_diagnostics ''web'' w @ [Telemetry ''native_detect_web_switch'']) @
        [CheckoutInit (next_handle w)
           ((payment e)\<lparr>win := Some fw, isClick := False, isNativeFallback := True\<rparr>)]
        @ [] @ [CheckoutStart (next_handle w)] @ post"
    using post c by simp
  moreover have "opened_connections (trace w') = opened_connections (trace w)"
    using post c by simp
  ultimately show ?thesis by blast
qed

theorem web_switch_starts_web_checkout_witness:
  "lastWebSwitchTime (fst (snd (onDetectWebSwitch demo_env 0 7 (world0, new_session)))) = Some 0 \<and>
   opened_connections (trace (fst (snd (onDetectWebSwitch demo_env 0 7 (world0, new_session))))) = [] \<and>
   didFallback (snd (snd (onDetectWebSwitch demo_env 0 7 (world0, new_session))))"
  using web_switch_starts_web_checkout
    [of demo_env 0 7 world0 new_session
        "fst (onDetectWebSwitch demo_env 0 7 (world0, new_session))"
        "fst (snd (onDetectWebSwitch demo_env 0 7 (world0, new_session)))"
        "snd (snd (onDetectWebSwitch demo_env 0 7 (world0, new_session)))"]
  by (simp add: world0_def)

subsection \<open>Close without resolution\<close>

text \<open>
  C2. A close callback starts a delay of 1000ms. Until the delay is over its continuation
  has not run: the state is the one reached without this close, with the delay still
  waiting. When the delay is over the continuation runs once, after the continuations of
  the closes that were waiting before it. A continuation that finds none of
  \<open>approved\<close>, \<open>cancelled\<close>, \<open>didFallback\<close> set, on a platform that is not Android
  Chrome, invokes the user's cancel handler exactly once and then \<open>destroy\<close>, which, if
  it had not run before, runs the registered teardown actions and empties the registry;
  so with this close the cancel handler is invoked exactly once more than without it. A
  continuation that finds \<open>approved\<close> set does nothing, and when the approve callback
  arrives between the close and the end of the delay the cancel handler is not invoked.
\<close>

theorem close_cancels_after_grace_delay:
  "(t < now w + 1000 \<longrightarrow>
      advance e t (onCloseCallback (w, s)) =
        (case advance e t (w, s) of
           (w', s') \<Rightarrow> (w', s'\<lparr>close_timers := close_timers s' @ [now w + 1000]\<rparr>))) \<and>
   (now w + 1000 \<le> t \<longrightarrow>
      advance e t (onCloseCallback (w, s)) = snd (onCloseElapsed e (advance e t (w, s)))) \<and>
   (now w + 1000 \<le> t \<and>
    \<not> approved s \<and> \<not> cancelled s \<and> \<not> didFallback s \<and> \<not> isAndroidChrome e \<longrightarrow>
      count_list (trace (fst (advance e t (onCloseCallback (w, s))))) UserCancel =
        Suc (count_list (trace (fst (advance e t (w, s)))) UserCancel) \<and>
      destroy_memo (snd (advance e t (onCloseCallback (w, s)))) \<noteq> None) \<and>
   (\<not> approved s1 \<and> \<not> cancelled s1 \<and> \<not> didFallback s1 \<and> \<not> isAndroidChrome e \<longrightarrow>
      (case onCloseElapsed e (w1, s1) of (r, w', s') \<Rightarrow>
         trace w' = trace w1 @ UserCancel #
           map Ran (case destroy_memo s1 of None \<Rightarrow> clean w1 | Some _ \<Rightarrow> []) \<and>
         destroy_memo s' \<noteq> None \<and>
         (destroy_memo s1 = None \<longrightarrow> clean w' = []))) \<and>
   (approved s1 \<longrightarrow> onCloseElapsed e (w1, s1) = (Resolved (), w1, s1)) \<and>
   (case run e [Close, Approve d, Tick t] (w, s) of (w', s') \<Rightarrow>
      approved s' \<and> count_list (trace w') UserCancel = count_list (trace w) UserCancel)"
proof -
  have waits: "t < now w + 1000 \<longrightarrow>
      advance e t (onCloseCallback (w, s)) =
        (case advance e t (w, s) of
           (w', s') \<Rightarrow> (w', s'\<lparr>close_timers := close_timers s' @ [now w + 1000]\<rparr>))"
    using close_waits [of t w e s] by blast
  have elapses: "now w + 1000 \<le> t \<longrightarrow>
      advance e t (onCloseCallback (w, s)) = snd (onCloseElapsed e (advance e t (w, s)))"
    using close_elapses [of w t e s] by blast
  have once: "now w + 1000 \<le> t \<and>
    \<not> approved s \<and> \<not> cancelled s \<and> \<not> didFallback s \<and> \<not> isAndroidChrome e \<longrightarrow>
      count_list (trace (fst (advance e t (onCloseCallback (w, s))))) UserCancel =
        Suc (count_list (trace (fst (advance e t (w, s)))) UserCancel) \<and>
      destroy_memo (snd (advance e t (onCloseCallback (w, s)))) \<noteq> None"
  proof
    assume a: "now w + 1000 \<le> t \<and>
      \<not> approved s \<and> \<not> cancelled s \<and> \<not> didFallback s \<and> \<not> isAndroidChrome e"
    obtain w0 s0 where adv: "advance e t (w, s) = (w0, s0)"
      by (metis surj_pair)
    have flags: "\<not> approved s0" "\<not> cancelled s0" "\<not> didFallback s0" "\<not> isAndroidChrome e"
      using advance_keeps_flags [of e t "(w, s)"] a adv by simp_all
    obtain r w' s' where el: "onCloseElapsed e (w0, s0) = (r, w', s')"
      by (metis prod_cases3)
    have eq: "advance e t (onCloseCallback (w, s)) = (w', s')"
      using close_elapses [of w t e s] a adv el by simp
    show "count_list (trace (fst (advance e t (onCloseCallback (w, s))))) UserCancel =
          Suc (count_list (trace (fst (advance e t (w, s)))) UserCancel) \<and>
        destroy_memo (snd (advance e t (onCloseCallback (w, s)))) \<noteq> None"
      using onCloseElapsed_cancels [OF flags el] unfolding eq adv
      by (simp split: option.splits)
  qed
  have each: "\<not> approved s1 \<and> \<not> cancelled s1 \<and> \<not> didFallback s1 \<and> \<not> isAndroidChrome e \<longrightarrow>
      (case onCloseElapsed e (w1, s1) of (r, w', s') \<Rightarrow>
         trace w' = trace w1 @ UserCancel #
           map Ran (case destroy_memo s1 of None \<Rightarrow> clean w1 | Some _ \<Rightarrow> []) \<and>
         destroy_memo s' \<noteq> None \<and>
         (destroy_memo s1 = None \<longrightarrow> clean w' = []))"
  proof
    assume "\<not> approved s1 \<and> \<not> cancelled s1 \<and> \<not> didFallback s1 \<and> \<not> isAndroidChrome e"
    then have flags:
      "\<not> approved s1" "\<not> cancelled s1" "\<not> didFallback s1" "\<not> isAndroidChrome e"
      by simp_all
    obtain r w' s' where el: "onCloseElapsed e (w1, s1) = (r, w', s')"
      by (metis prod_cases3)
    show "case onCloseElapsed e (w1, s1) of (r, w', s') \<Rightarrow>
           trace w' = trace w1 @ UserCancel #
             map Ran (case destroy_memo s1 of None \<Rightarrow> clean w1 | Some _ \<Rightarrow> []) \<and>
           destroy_memo s' \<noteq> None \<and>
           (destroy_memo s1 = None \<longrightarrow> clean w' = [])"
      using onCloseElapsed_cancels [OF flags el] by (simp add: el)
  qed
  have settled: "approved s1 \<longrightarrow> onCloseElapsed e (w1, s1) = (Resolved (), w1, s1)"
    by (simp add: onCloseElapsed_settled)
  have approve: "case run e [Close, Approve d, Tick t] (w, s) of (w', s') \<Rightarrow>
      approved s' \<and> count_list (trace w') UserCancel = count_list (trace w) UserCancel"
  proof -
    let ?s1 = "s\<lparr>close_timers := close_timers s @ [now w + 1000]\<rparr>"
    obtain r w2 s2 where ap: "onApproveCallback e d (w, ?s1) = (r, w2, s2)"
      by (metis prod_cases3)
    note a = onApproveCallback_UserCancel [OF ap]
    have "run e [Close, Approve d, Tick t] (w, s) = advance e t (w2, s2)"
      using ap by simp
    then show ?thesis
      using a by (simp add: advance_settled del: advance.simps run.simps)
  qed
  from waits elapses once each settled approve show ?thesis
    by blast
qed

theorem close_cancels_after_grace_delay_witness:
  "(999::nat) < now world0 + 1000 \<and> now world0 + 1000 \<le> (1000::nat) \<and>
   \<not> approved new_session \<and> \<not> cancelled new_session \<and> \<not> didFallback new_session \<and>
   \<not> isAndroidChrome demo_env \<and>
   trace (fst (run demo_env [Close, Tick 999] (world0, new_session))) = [] \<and>
   trace (fst (run demo_env [Close, Tick 1000] (world0, new_session))) = [UserCancel] \<and>
   count_list (trace (fst (run demo_env [Close, Approve demo_data, Tick 1000]
      (world0, new_session)))) UserCancel = 0"
  using close_cancels_after_grace_delay
    [where s = new_session and w = world0 and e = demo_env and t = 999 and d = demo_data]
    close_cancels_after_grace_delay
    [where s = new_session and w = world0 and e = demo_env and t = 1000 and d = demo_data
       and ?w1.0 = "world0\<lparr>now := 1000\<rparr>" and ?s1.0 = new_session]
  by (simp add: world0_def new_session_def demo_env_def split_beta max_def)

subsection \<open>Destroy is memoized\<close>




subsection \<open>The QR path\<close>

text \<open>
  C6. On a FlowInstance whose funding source can use Venmo desktop pay, \<open>click()\<close>
  renders the QR component and then fails with a TypeError while it builds the callbacks
  for \<open>connectNative\<close>: no native connection is opened and no cancel is registered.
  The catch of \<open>click\<close> runs \<open>destroy\<close>, logs \<open>native_error\<close> and rejects.
\<close>

theorem click_qr_opens_no_connection:
  "click (demo_env\<lparr>canUseVenmoDesktopPay := (\<lambda>f. True)\<rparr>) (world0, new_session) =
     (ClickSettled (Rejected (TypeError ''then is not a function'')),
      world0\<lparr>trace := [Telemetry ''VenmoDesktopPay_qrcode'', QRRendered,
                        Telemetry ''native_error'']\<rparr>,
      new_session\<lparr>destroy_memo := Some (Resolved ())\<rparr>)"
  by (simp add: click_qr isVenmoDesktopPay_def demo_env_def click_catch.simps destroy.simps
      clean_all_def emit_def world0_def new_session_def)

subsection \<open>Two clicks\<close>

text \<open>
  C5, as stated, fails: on the popup path two successive \<open>click()\<close> calls on one
  FlowInstance leave both popups live, and after the second app switch the connections
  of both clicks are live.
\<close>

theorem second_click_keeps_first_connection:
  "initNative demo_env world0 = (Inr new_session, world0) \<and>
   live_popups (fst (run demo_env [Click, DetectAppSwitch 0, Click] (world0, new_session)))
     = [0, 2] \<and>
   live_connections (fst (run demo_env [Click, DetectAppSwitch 0, Click] (world0, new_session)))
     = [1] \<and>
   live_connections (fst (run demo_env [Click, DetectAppSwitch 0, Click, DetectAppSwitch 2]
     (world0, new_session))) = [1, 3]"
  by (simp add: initNative_def clean_all_def click_popup isVenmoDesktopPay_def demo_env_def
      detectAppSwitch_eq settle_click.simps switch_diagnostics_def
      live_popups_def live_connections_def world0_def new_session_def)

text \<open>
  C5, amended. On the popup path, while \<open>destroy\<close> has not run, a \<open>click()\<close> whose
  popup opens tears nothing down: it opens the popup, appends its cancel to the registry
  and leaves the live connections as they were. A new \<open>initNative\<close> runs every action
  of the prior registry before it installs an empty one, so no connection or popup whose
  cancel was registered there is live afterwards.
\<close>

theorem click_adds_popup_initNative_tears_down:
  "(\<not> isVenmoDesktopPay e \<and> openNativePopup e = None \<and> destroy_memo s = None \<longrightarrow>
      (case click e (w, s) of (r, w', s') \<Rightarrow>
         r = ClickPending (next_handle w) \<and>
         trace w' = trace w @ [PopupOpened (next_handle w)] \<and>
         clean w' = clean w @ [PopupCancel (next_handle w)] \<and>
         live_connections w' = live_connections w)) \<and>
   (firebase e \<noteq> None \<longrightarrow>
      (case initNative e w of (r, w') \<Rightarrow>
         r = Inr new_session \<and> clean w' = [] \<and>
         trace w' = trace w @ map Ran (clean w) \<and>
         (\<forall>h. ConnectionCancel h \<in> set (clean w) \<longrightarrow> h \<notin> set (live_connections w')) \<and>
         (\<forall>h. PopupCancel h \<in> set (clean w) \<longrightarrow> h \<notin> set (live_popups w'))))"
proof (intro conjI impI)
  assume "\<not> isVenmoDesktopPay e \<and> openNativePopup e = None \<and> destroy_memo s = None"
  then show "case click e (w, s) of (r, w', s') \<Rightarrow>
         r = ClickPending (next_handle w) \<and>
         trace w' = trace w @ [PopupOpened (next_handle w)] \<and>
         clean w' = clean w @ [PopupCancel (next_handle w)] \<and>
         live_connections w' = live_connections w"
    by (simp add: click_popup live_connections_def)
next
  assume "firebase e \<noteq> None"
  then show "case initNative e w of (r, w') \<Rightarrow>
         r = Inr new_session \<and> clean w' = [] \<and>
         trace w' = trace w @ map Ran (clean w) \<and>
         (\<forall>h. ConnectionCancel h \<in> set (clean w) \<longrightarrow> h \<notin> set (live_connections w')) \<and>
         (\<forall>h. PopupCancel h \<in> set (clean w) \<longrightarrow> h \<notin> set (live_popups w'))"
    by (auto simp: initNative_def clean_all_def live_connections_def live_popups_def)
qed

theorem click_adds_popup_initNative_tears_down_witness:
  "\<not> isVenmoDesktopPay demo_env \<and> openNativePopup demo_env = None \<and>
   destroy_memo new_session = None \<and> firebase demo_env \<noteq> None \<and>
   fst (click demo_env (world0, new_session)) = ClickPending 0 \<and>
   live_popups (fst (snd (click demo_env (world0, new_session)))) = [0] \<and>
   live_popups (snd (initNative demo_env (fst (snd (click demo_env (world0, new_session)))))) = []"
proof -
  have a: "\<not> isVenmoDesktopPay demo_env \<and> openNativePopup demo_env = None \<and>
      destroy_memo new_session = None"
    by (simp add: isVenmoDesktopPay_def demo_env_def new_session_def)
  have b: "firebase demo_env \<noteq> None"
    by (simp add: demo_env_def)
  obtain r w1 s1 where c: "click demo_env (world0, new_session) = (r, w1, s1)"
    by (metis prod_cases3)
  have c1: "r = ClickPending 0" "trace w1 = [PopupOpened 0]" "clean w1 = [PopupCancel 0]"
    using click_adds_popup_initNative_tears_down
      [where e = demo_env and w = world0 and s = new_session] a c
    by (simp_all add: world0_def)
  obtain r2 w2 where i: "initNative demo_env w1 = (r2, w2)"
    by (metis surj_pair)
  have i2: "trace w2 = trace w1 @ map Ran (clean w1)"
    using click_adds_popup_initNative_tears_down [where e = demo_env and w = w1] b i
    by simp
  show ?thesis
    using a b c c1 i i2 by (simp add: live_popups_def)
qed

subsection \<open>Failures of click\<close>

text \<open>
  C4. On the popup path a \<open>click()\<close> opens the popup; the popup then reports an app
  switch and \<open>connectNative\<close> throws. The throw leaves the \<open>onDetectAppSwitch\<close>
  callback before \<open>.then(resolve, reject)\<close> is attached and goes to the popup: the
  catch of \<open>click\<close> does not run, the future of the click stays open, \<open>destroy\<close> is
  not run, the popup's cancel stays registered and no \<open>native_error\<close> is logged.
\<close>

theorem connectNative_throw_escapes_click:
  "onDetectAppSwitch (demo_env\<lparr>connectNative := Some (Error ''socket'')\<rparr>) 0
     (snd (click (demo_env\<lparr>connectNative := Some (Error ''socket'')\<rparr>) (world0, new_session)))
   = (Inl (Error ''socket''),
      \<lparr>clean = [PopupCancel 0], lastAppSwitchTime = Some 0, lastWebSwitchTime = None, now = 0,
       next_handle = 1,
       trace = [PopupOpened 0, Telemetry ''app_switch_detect_with_no_previous_switch'',
                Telemetry ''native_detect_app_switch'']\<rparr>,
      \<lparr>approved = False, cancelled = False, didFallback = False, destroy_memo = None,
       click_pending = [0], click_settled = [], close_timers = []\<rparr>)"
  by (simp add: click_popup isVenmoDesktopPay_def demo_env_def
      detectAppSwitch_eq switch_diagnostics_def world0_def new_session_def)

text \<open>The same for every session and every error that \<open>connectNative\<close> throws there.\<close>

lemma connectNative_throw_runs_nothing:
  "connectNative e = Some x \<Longrightarrow>
   onDetectAppSwitch e p (w, s) =
     (Inl x,
      w\<lparr>lastAppSwitchTime := Some (now w),
        trace := trace w @ switch_diagnostics ''app'' w @
          [Telemetry ''native_detect_app_switch'']\<rparr>, s)"
  by (simp add: detectAppSwitch_eq)

text \<open>
  The failures that do reject the future of \<open>click()\<close> are caught: a throw on the QR
  path, a throw of \<open>openNativePopup\<close>, and a rejection of the future that
  \<open>detectAppSwitch\<close> or \<open>detectWebSwitch\<close> returns while the future of the click
  that opened the popup is open. In each case \<open>destroy\<close> is invoked; when this is the
  first \<open>destroy\<close> of the session, every teardown action registered by then is run and
  the registry is empty. Once \<open>destroy\<close> has resolved, \<open>native_error\<close> is logged
  after the teardown actions, as the last effect, and the future of the click is rejected
  with the error that was caught.
\<close>

lemma click_catches_rejections:
  "(isVenmoDesktopPay e \<longrightarrow>
      (case click e (w, s) of (r, w', s') \<Rightarrow>
         destroy_memo s' \<noteq> None \<and>
         (destroy_memo s = None \<longrightarrow>
            clean w' = [] \<and> ran_actions (trace w') = ran_actions (trace w) @ clean w) \<and>
         (destroy_memo s' = Some (Resolved ()) \<longrightarrow>
            r = ClickSettled (Rejected (TypeError ''then is not a function'')) \<and>
            trace w' = trace w @ [Telemetry ''VenmoDesktopPay_qrcode'', QRRendered]
              @ map Ran (case destroy_memo s of None \<Rightarrow> clean w | Some _ \<Rightarrow> [])
              @ [Telemetry ''native_error'']))) \<and>
   (\<not> isVenmoDesktopPay e \<and> openNativePopup e = Some x \<longrightarrow>
      (case click e (w, s) of (r, w', s') \<Rightarrow>
         destroy_memo s' \<noteq> None \<and>
         (destroy_memo s = None \<longrightarrow>
            clean w' = [] \<and> ran_actions (trace w') = ran_actions (trace w) @ clean w) \<and>
         (destroy_memo s' = Some (Resolved ()) \<longrightarrow>
            r = ClickSettled (Rejected x) \<and>
            trace w' = trace w
              @ map Ran (case destroy_memo s of None \<Rightarrow> clean w | Some _ \<Rightarrow> [])
              @ [Telemetry ''native_error'']))) \<and>
   (p \<in> set (click_pending s) \<and> connectNative e = None \<and> setProps e = Rejected x \<longrightarrow>
      (case onDetectAppSwitch e p (w, s) of (r, w', s') \<Rightarrow>
         destroy_memo s' \<noteq> None \<and>
         (destroy_memo s = None \<longrightarrow>
            clean w' = [] \<and>
            ran_actions (trace w') =
              ran_actions (trace w) @ clean w @ [ConnectionCancel (next_handle w)]) \<and>
         (destroy_memo s' = Some (Resolved ()) \<longrightarrow>
            (p, Rejected x) \<in> set (click_settled s') \<and>
            (\<exists>pre. trace w' = trace w @ pre
               @ map Ran (case destroy_memo s of
                            None \<Rightarrow> clean w @ [ConnectionCancel (next_handle w)]
                          | Some _ \<Rightarrow> [])
               @ [Telemetry ''native_error''])))) \<and>
   (p \<in> set (click_pending s) \<and> checkout_start e = Rejected x \<longrightarrow>
      (case onDetectWebSwitch e p fw (w, s) of (r, w', s') \<Rightarrow>
         destroy_memo s' \<noteq> None \<and>
         (destroy_memo s = None \<longrightarrow>
            clean w' = [] \<and>
            ran_actions (trace w') =
              ran_actions (trace w) @ clean w @ [CheckoutClose (next_handle w)]) \<and>
         (destroy_memo s' = Some (Resolved ()) \<longrightarrow>
            (p, Rejected x) \<in> set (click_settled s') \<and>
            (\<exists>pre. trace w' = trace w @ pre
               @ map Ran (case destroy_memo s of
                            None \<Rightarrow> clean w @ [CheckoutClose (next_handle w)]
                          | Some _ \<Rightarrow> [])
               @ [Telemetry ''native_error'']))))"
proof (intro conjI impI)
  assume qr: "isVenmoDesktopPay e"
  let ?wq = "w\<lparr>trace := trace w @ [Telemetry ''VenmoDesktopPay_qrcode'', QRRendered]\<rparr>"
  obtain r w' s' where cc:
    "click_catch e (TypeError ''then is not a function'') (?wq, s) = (r, w', s')"
    by (metis prod_cases3)
  show "case click e (w, s) of (r, w', s') \<Rightarrow>
         destroy_memo s' \<noteq> None \<and>
         (destroy_memo s = None \<longrightarrow>
            clean w' = [] \<and> ran_actions (trace w') = ran_actions (trace w) @ clean w) \<and>
         (destroy_memo s' = Some (Resolved ()) \<longrightarrow>
            r = ClickSettled (Rejected (TypeError ''then is not a function'')) \<and>
            trace w' = trace w @ [Telemetry ''VenmoDesktopPay_qrcode'', QRRendered]
              @ map Ran (case destroy_memo s of None \<Rightarrow> clean w | Some _ \<Rightarrow> [])
              @ [Telemetry ''native_error''])"
    using click_catch_outcome [OF cc] by (auto simp: click_qr [OF qr] cc split: option.splits)
next
  assume "\<not> isVenmoDesktopPay e \<and> openNativePopup e = Some x"
  then have p: "\<not> isVenmoDesktopPay e" "openNativePopup e = Some x"
    by simp_all
  obtain r w' s' where cc: "click_catch e x (w, s) = (r, w', s')"
    by (metis prod_cases3)
  show "case click e (w, s) of (r, w', s') \<Rightarrow>
         destroy_memo s' \<noteq> None \<and>
         (destroy_memo s = None \<longrightarrow>
            clean w' = [] \<and> ran_actions (trace w') = ran_actions (trace w) @ clean w) \<and>
         (destroy_memo s' = Some (Resolved ()) \<longrightarrow>
            r = ClickSettled (Rejected x) \<and>
            trace w' = trace w
              @ map Ran (case destroy_memo s of None \<Rightarrow> clean w | Some _ \<Rightarrow> [])
              @ [Telemetry ''native_error''])"
    using click_catch_outcome [OF cc] by (auto simp: click_popup_thrown [OF p] cc split: option.splits)
next
  assume "p \<in> set (click_pending s) \<and> connectNative e = None \<and> setProps e = Rejected x"
  then have h: "p \<in> set (click_pending s)" "connectNative e = None" "setProps e = Rejected x"
    by simp_all
  let ?w1 = "w\<lparr>lastAppSwitchTime := Some (now w),
             next_handle := Suc (next_handle w),
             clean := clean w @ [ConnectionCancel (next_handle w)],
             trace := trace w @ switch_diagnostics ''app'' w @
               [Telemetry ''native_detect_app_switch'', ConnectionOpened (next_handle w),
                SetProps (next_handle w)]\<rparr>"
  obtain r w' s' where cc:
    "click_catch e x (?w1, s\<lparr>click_pending := removeAll p (click_pending s)\<rparr>) = (r, w', s')"
    by (metis prod_cases3)
  have run: "onDetectAppSwitch e p (w, s) =
      (Inr (), w', s'\<lparr>click_settled := click_settled s' @ [(p, r)]\<rparr>)"
    using settle_click_rejected [OF h(1) cc] h by (simp add: detectAppSwitch_eq)
  show "case onDetectAppSwitch e p (w, s) of (r, w', s') \<Rightarrow>
         destroy_memo s' \<noteq> None \<and>
         (destroy_memo s = None \<longrightarrow>
            clean w' = [] \<and>
            ran_actions (trace w') =
              ran_actions (trace w) @ clean w @ [ConnectionCancel (next_handle w)]) \<and>
         (destroy_memo s' = Some (Resolved ()) \<longrightarrow>
            (p, Rejected x) \<in> set (click_settled s') \<and>
            (\<exists>pre. trace w' = trace w @ pre
               @ map Ran (case destroy_memo s of
                            None \<Rightarrow> clean w @ [ConnectionCancel (next_handle w)]
                          | Some _ \<Rightarrow> [])
               @ [Telemetry ''native_error'']))"
    using click_catch_outcome [OF cc] unfolding run
    by (auto split: option.splits)
next
  assume "p \<in> set (click_pending s) \<and> checkout_start e = Rejected x"
  then have h: "p \<in> set (click_pending s)" "checkout_start e = Rejected x"
    by simp_all
  let ?w1 = "w\<lparr>lastWebSwitchTime := Some (now w),
        next_handle := Suc (next_handle w),
        clean := clean w @ [CheckoutClose (next_handle w)],
        trace := trace w @ switch_diagnostics ''web'' w @
          [Telemetry ''native_detect_web_switch'',
           CheckoutInit (next_handle w)
             ((payment e)\<lparr>win := Some fw, isClick := False, isNativeFallback := True\<rparr>),
           CheckoutStart (next_handle w)]\<rparr>"
  obtain r w' s' where cc:
    "click_catch e x (?w1, s\<lparr>didFallback := True,
        click_pending := removeAll p (click_pending s)\<rparr>) = (r, w', s')"
    by (metis prod_cases3)
  have run: "onDetectWebSwitch e p fw (w, s) =
      (Inr (), w', s'\<lparr>click_settled := click_settled s' @ [(p, r)]\<rparr>)"
    using settle_click_rejected [of p "s\<lparr>didFallback := True\<rparr>" e x ?w1 r w' s'] cc h
    by (simp add: detectWebSwitch_eq)
  show "case onDetectWebSwitch e p fw (w, s) of (r, w', s') \<Rightarrow>
         destroy_memo s' \<noteq> None \<and>
         (destroy_memo s = None \<longrightarrow>
            clean w' = [] \<and>
            ran_actions (trace w') =
              ran_actions (trace w) @ clean w @ [CheckoutClose (next_handle w)]) \<and>
         (destroy_memo s' = Some (Resolved ()) \<longrightarrow>
            (p, Rejected x) \<in> set (click_settled s') \<and>
            (\<exists>pre. trace w' = trace w @ pre
               @ map Ran (case destroy_memo s of
                            None \<Rightarrow> clean w @ [CheckoutClose (next_handle w)]
                          | Some _ \<Rightarrow> [])
               @ [Telemetry ''native_error'']))"
    using click_catch_outcome [OF cc] unfolding run
    by (auto split: option.splits)
qed

lemma click_catches_rejections_example:
  "0 \<in> set (click_pending (new_session\<lparr>click_pending := [0]\<rparr>)) \<and>
   connectNative (demo_env\<lparr>setProps := Rejected (Error ''props'')\<rparr>) = None \<and>
   setProps (demo_env\<lparr>setProps := Rejected (Error ''props'')\<rparr>) = Rejected (Error ''props'') \<and>
   destroy_memo (new_session\<lparr>click_pending := [0]\<rparr>) = None \<and>
   ran_actions (trace (fst (snd (onDetectAppSwitch
       (demo_env\<lparr>setProps := Rejected (Error ''props'')\<rparr>) 0
       (world0\<lparr>next_handle := 1, clean := [PopupCancel 0], trace := [PopupOpened 0]\<rparr>,
        new_session\<lparr>click_pending := [0]\<rparr>))))) = [PopupCancel 0, ConnectionCancel 1]"
  using click_catches_rejections
    [where e = "demo_env\<lparr>setProps := Rejected (Error ''props'')\<rparr>" and p = 0
       and x = "Error ''props''"
       and w = "world0\<lparr>next_handle := 1, clean := [PopupCancel 0], trace := [PopupOpened 0]\<rparr>"
       and s = "new_session\<lparr>click_pending := [0]\<rparr>"]
  by (simp add: split_beta demo_env_def new_session_def world0_def
      del: onDetectAppSwitch.simps onDetectWebSwitch.simps)

section \<open>Properties of the button load logging\<close>

text \<open>
  C10. When \<open>window.xprops\<close> is absent, \<open>triggerButtonLogs\<close> throws an Error with the
  message \<open>No xprops found\<close>; the only call made on the logger by then is the intranet
  warning, made when \<open>isIEIntranet()\<close> holds, and no record has been tracked. When
  \<open>window.xprops\<close> is present the call does not throw.
\<close>

theorem triggerButtonLogs_requires_xprops:
  "(window_xprops pg = None \<longrightarrow>
      triggerButtonLogs pg =
        (Inl (Error ''No xprops found''),
         if isIEIntranet pg then [Warn ''button_child_intranet_mode''] else [])) \<and>
   (window_xprops pg \<noteq> None \<longrightarrow> fst (triggerButtonLogs pg) = Inr ())"
  by (auto simp: triggerButtonLogs_def)

theorem triggerButtonLogs_requires_xprops_witness:
  "window_xprops demo_page = None \<and>
   triggerButtonLogs demo_page =
     (Inl (Error ''No xprops found''), [Warn ''button_child_intranet_mode'']) \<and>
   window_xprops (demo_page\<lparr>window_xprops := Some \<lparr>style = None\<rparr>\<rparr>) \<noteq> None \<and>
   fst (triggerButtonLogs (demo_page\<lparr>window_xprops := Some \<lparr>style = None\<rparr>\<rparr>)) = Inr ()"
  using triggerButtonLogs_requires_xprops [of demo_page]
    triggerButtonLogs_requires_xprops [of "demo_page\<lparr>window_xprops := Some \<lparr>style = None\<rparr>\<rparr>"]
  by (simp add: demo_page_def)

end
